theory Spec2Isabelle
  imports Complex_Main
begin

section \<open>The video-analysis core of engagement/ai\_engine.py and engagement/models.py\<close>

text \<open>
  The embedding follows the Python source function by function.  Python integers are
  \<open>int\<close>.  A float is the real number it denotes.  The mean and the standard deviation
  of a face region are computed inside numpy: the embedding takes the two floats that
  numpy returns as given and does not recompute them.  The two float expressions of the
  source itself, the aspect ratio \<open>w / h\<close> and the engagement percentage
  \<open>attentive / total * 100\<close>, are the same expressions over \<open>real\<close>, without
  rounding.  Exceptions are values: a function that can raise returns \<open>exn + 'a\<close>,
  with \<open>Inl\<close> the exception.
\<close>

subsection \<open>Exceptions\<close>

text \<open>
  \<open>ValueError m\<close> and \<open>Error m\<close> carry the message \<open>m\<close>; \<open>Error\<close> stands for
  any exception raised inside the decoding and detection libraries.
\<close>

datatype exn = ZeroDivisionError | ValueError string | Error string

text \<open>\<open>str(e)\<close>.\<close>

fun str :: "exn \<Rightarrow> string" where
  "str ZeroDivisionError = ''integer modulo by zero''"
| "str (ValueError m) = m"
| "str (Error m) = m"

subsection \<open>Face regions\<close>

text \<open>
  A face region is a numpy array of unsigned bytes.  \<open>classify_behavior\<close> reads it
  through four calls only: \<open>face_region.size\<close>, \<open>face_region.shape\<close>,
  \<open>np.mean(face_region)\<close> and \<open>np.std(face_region)\<close>.  A region is therefore
  represented by its shape (one extent per axis) and by the two floats that \<open>np.mean\<close>
  and \<open>np.std\<close> return on it, whatever the order and the rounding of numpy's
  summation.  \<open>face_region.size\<close> is the product of the extents; on a region of size
  zero the method returns before either statistic is computed, and the two fields are not
  read.
\<close>

record ndarray =
  shape :: "nat list"
  np_mean :: real
  np_std :: real

definition size_nd :: "ndarray \<Rightarrow> nat" where
  "size_nd a = prod_list (shape a)"

subsection \<open>EngagementAnalyzer.classify\_behavior\<close>

text \<open>
  The four rules of the heuristic, in the order of the source, on the three statistics.
\<close>

definition classify_stats :: "real \<Rightarrow> real \<Rightarrow> real \<Rightarrow> string" where
  "classify_stats brightness contrast aspect_ratio =
     (if brightness < 80 \<and> contrast < 30 then ''Sleepy''
      else if aspect_ratio < 0.6 \<or> aspect_ratio > 1.4 then ''Distracted''
      else if brightness > 100 \<and> contrast > 40 \<and> 0.7 < aspect_ratio \<and> aspect_ratio < 1.3
        then ''Attentive''
      else ''Neutral'')"

text \<open>
  The body of the \<open>try\<close> block.  \<open>h, w = face_region.shape[:2]\<close> raises ValueError
  when the array has fewer than two axes.
\<close>

definition classify_try :: "ndarray \<Rightarrow> exn + string" where
  "classify_try face_region =
     (case take 2 (shape face_region) of
        [h, w] \<Rightarrow>
          if h = 0 \<or> w = 0 then Inr ''Neutral''
          else
            let brightness = np_mean face_region;
                contrast = np_std face_region;
                aspect_ratio = (if h > 0 then real w / real h else 1.0)
            in Inr (classify_stats brightness contrast aspect_ratio)
      | _ \<Rightarrow> Inl (ValueError ''not enough values to unpack''))"

text \<open>
  The whole method: the guard on \<open>None\<close> and on an empty array, then the \<open>try\<close> block
  with its handler \<open>except Exception: return 'Neutral'\<close>.
\<close>

definition classify_behavior :: "ndarray option \<Rightarrow> exn + string" where
  "classify_behavior face_region =
     (case face_region of
        None \<Rightarrow> Inr ''Neutral''
      | Some r \<Rightarrow>
          if size_nd r = 0 then Inr ''Neutral''
          else (case classify_try r of
                  Inl e \<Rightarrow> Inr ''Neutral''
                | Inr behavior \<Rightarrow> Inr behavior))"

subsection \<open>The interval and cumulative tallies\<close>

text \<open>
  The four counters \<open>self.attentive_count\<close>, \<open>self.sleepy_count\<close>,
  \<open>self.distracted_count\<close>, \<open>self.neutral_count\<close> of the analyzer form the field
  \<open>interval\<close>; the dictionary \<open>self.cumulative_stats\<close> and the dictionary returned by
  \<open>process_frame\<close> have the same four keys.
\<close>

record counts =
  attentive :: int
  sleepy :: int
  distracted :: int
  neutral :: int

definition zero_counts :: counts where
  "zero_counts = \<lparr>attentive = 0, sleepy = 0, distracted = 0, neutral = 0\<rparr>"

definition add_counts :: "counts \<Rightarrow> counts \<Rightarrow> counts" where
  "add_counts c d =
     \<lparr>attentive = attentive c + attentive d, sleepy = sleepy c + sleepy d,
      distracted = distracted c + distracted d, neutral = neutral c + neutral d\<rparr>"

text \<open>
  \<open>face_cascade\<close> is True when the Haar cascade was loaded and False when the field is
  \<open>None\<close>.  \<open>min_face_size\<close> is a parameter of the detector only.
\<close>

record analyzer =
  save_interval :: int
  face_cascade :: bool
  frame_count :: int
  total_faces_detected :: int
  interval :: counts
  cumulative_stats :: counts

text \<open>The dictionary returned by \<open>get_current_stats\<close> and \<open>get_cumulative_stats\<close>.\<close>

record stats =
  total_students :: int
  attentive_count :: int
  sleepy_count :: int
  distracted_count :: int
  neutral_count :: int
  engagement_percentage :: real

definition get_current_stats :: "analyzer \<Rightarrow> stats" where
  "get_current_stats self =
     (let total = attentive (interval self) + sleepy (interval self)
                  + distracted (interval self) + neutral (interval self);
          engagement_pct =
            (if total > 0 then real_of_int (attentive (interval self)) / real_of_int total * 100
             else 0)
      in \<lparr>total_students = total,
          attentive_count = attentive (interval self),
          sleepy_count = sleepy (interval self),
          distracted_count = distracted (interval self),
          neutral_count = neutral (interval self),
          engagement_percentage = engagement_pct\<rparr>)"

definition reset_interval_stats :: "analyzer \<Rightarrow> analyzer" where
  "reset_interval_stats self = self\<lparr>interval := zero_counts\<rparr>"

definition get_cumulative_stats :: "analyzer \<Rightarrow> stats" where
  "get_cumulative_stats self =
     (let total = attentive (cumulative_stats self) + sleepy (cumulative_stats self)
                  + distracted (cumulative_stats self) + neutral (cumulative_stats self);
          engagement_pct =
            (if total > 0
             then real_of_int (attentive (cumulative_stats self)) / real_of_int total * 100
             else 0)
      in \<lparr>total_students = total,
          attentive_count = attentive (cumulative_stats self),
          sleepy_count = sleepy (cumulative_stats self),
          distracted_count = distracted (cumulative_stats self),
          neutral_count = neutral (cumulative_stats self),
          engagement_percentage = engagement_pct\<rparr>)"

subsection \<open>EngagementAnalyzer.process\_frame\<close>

text \<open>
  A frame is represented by what the OpenCV calls of \<open>process_frame\<close> do on it:
  \<open>cvt_raises\<close> is the exception of \<open>cv2.cvtColor\<close> or \<open>cv2.equalizeHist\<close>, if they
  raise one, and \<open>detect\<close> is the result of \<open>detectMultiScale\<close>, each rectangle
  \<open>(x, y, w, h)\<close> given as the region \<open>gray[y:y+h, x:x+w]\<close> it cuts out, or the exception
  the detector raises.
\<close>

datatype frame = Frame (cvt_raises: "exn option") (detect: "exn + ndarray list")

text \<open>The loop over the detected faces, with the four counters of one frame.\<close>

fun count_faces :: "ndarray list \<Rightarrow> counts \<Rightarrow> exn + counts" where
  "count_faces [] c = Inr c"
| "count_faces (face_region # faces) c =
     (case classify_behavior (Some face_region) of
        Inl e \<Rightarrow> Inl e
      | Inr behavior \<Rightarrow>
          count_faces faces
            (if behavior = ''Attentive'' then c\<lparr>attentive := attentive c + 1\<rparr>
             else if behavior = ''Sleepy'' then c\<lparr>sleepy := sleepy c + 1\<rparr>
             else if behavior = ''Distracted'' then c\<lparr>distracted := distracted c + 1\<rparr>
             else c\<lparr>neutral := neutral c + 1\<rparr>))"

text \<open>
  The result is the number of faces, the dictionary of the frame's counts (\<open>None\<close> for the
  empty dictionary returned on a missing frame) and the updated analyzer.
\<close>

definition process_frame :: "analyzer \<Rightarrow> frame option \<Rightarrow> exn + (int \<times> counts option \<times> analyzer)" where
  "process_frame self frame =
     (case frame of
        None \<Rightarrow> Inr (0, None, self)
      | Some f \<Rightarrow>
          (case cvt_raises f of
             Some e \<Rightarrow> Inl e
           | None \<Rightarrow>
               (case (if face_cascade self then detect f else Inr []) of
                  Inl e \<Rightarrow> Inl e
                | Inr faces \<Rightarrow>
                    (case count_faces faces zero_counts of
                       Inl e \<Rightarrow> Inl e
                     | Inr fc \<Rightarrow>
                         Inr (int (length faces), Some fc,
                              self\<lparr>interval := add_counts (interval self) fc,
                                   cumulative_stats := add_counts (cumulative_stats self) fc\<rparr>)))))"

subsection \<open>EngagementRecord and its save method\<close>

text \<open>
  The stored row has the six fields of \<open>stats\<close>, the video reference and the frame
  number.  The fields \<open>timestamp\<close> and \<open>processing_time\<close> hold wall-clock readings and
  are left out.  The table is the list of the rows in the order of their insertion.
\<close>

record EngagementRecord = stats +
  video_upload_id :: "int option"
  frame_number :: int

definition save :: "EngagementRecord \<Rightarrow> EngagementRecord list \<Rightarrow> EngagementRecord list" where
  "save self table =
     table @
     [if total_students self > 0
      then self\<lparr>engagement_percentage :=
                  (real_of_int (attentive_count self) / real_of_int (total_students self)) * 100\<rparr>
      else self\<lparr>engagement_percentage := 0.0\<rparr>]"

text \<open>The record that \<open>process_video\<close> builds from a snapshot.\<close>

definition make_record :: "int option \<Rightarrow> stats \<Rightarrow> int \<Rightarrow> EngagementRecord" where
  "make_record vid st n =
     \<lparr>total_students = total_students st,
      attentive_count = attentive_count st,
      sleepy_count = sleepy_count st,
      distracted_count = distracted_count st,
      neutral_count = neutral_count st,
      engagement_percentage = engagement_percentage st,
      video_upload_id = vid,
      frame_number = n\<rparr>"

subsection \<open>process\_video\<close>

text \<open>
  What the run finds outside the program: whether \<open>import cv2\<close> succeeded, whether the
  video path and the cascade file exist, whether the capture opened, and the successive
  results of \<open>cap.read()\<close>.  A read either returns \<open>(True, frame)\<close> or raises; after
  the last element of \<open>reads\<close> it returns \<open>(False, None)\<close>.
\<close>

datatype read_event = Read "frame option" | Read_raises exn

record env =
  cv2_available :: bool
  path_exists :: bool
  cascade_exists :: bool
  is_opened :: bool
  reads :: "read_event list"

text \<open>The constructor of the analyzer, with \<open>_load_face_cascade\<close>.\<close>

definition init_analyzer :: "env \<Rightarrow> int \<Rightarrow> analyzer" where
  "init_analyzer e si =
     \<lparr>save_interval = si,
      face_cascade = (cv2_available e \<and> cascade_exists e),
      frame_count = 0,
      total_faces_detected = 0,
      interval = zero_counts,
      cumulative_stats = zero_counts\<rparr>"

text \<open>
  The run summary.  The key \<open>success\<close> of the dictionary is True in \<open>Success\<close> and
  \<open>Simulated\<close> and False in \<open>Failure\<close>; \<open>processing_time\<close> is a wall-clock
  reading and is left out.
\<close>

datatype summary =
    Failure (error: string) (records_created: int)
  | Success (total_frames: int) (total_faces: int) (records_created: int) (final_stats: stats)
  | Simulated (records_created: int)

fun success :: "summary \<Rightarrow> bool" where
  "success (Failure m n) = False"
| "success (Success f d n st) = True"
| "success (Simulated n) = True"

text \<open>A call either returns a summary or lets an exception escape.\<close>

datatype outcome = Returns summary | Raises exn

text \<open>
  One pass through the body of \<open>while True\<close> after a successful read, on the analyzer,
  the table and the counter \<open>records_created\<close>.  An exception leaves the table and the
  counter as they were when the pass began, since every statement that can raise comes
  before \<open>record.save()\<close>; the write to the table itself is taken to succeed.  The
  frame rate and the frame total of the container, and the progress message every 100
  frames, only reach the log and are left out.
\<close>

definition loop_body ::
  "int \<Rightarrow> int option \<Rightarrow> frame option \<Rightarrow> analyzer \<Rightarrow> EngagementRecord list \<Rightarrow> int
   \<Rightarrow> exn + (analyzer \<times> EngagementRecord list \<times> int)" where
  "loop_body si vid frame a0 table rc =
     (let a1 = a0\<lparr>frame_count := frame_count a0 + 1\<rparr> in
      case process_frame a1 frame of
        Inl e \<Rightarrow> Inl e
      | Inr (faces_detected, _, a2) \<Rightarrow>
          let a3 = a2\<lparr>total_faces_detected := total_faces_detected a2 + faces_detected\<rparr> in
          if si = 0 then Inl ZeroDivisionError
          else if frame_count a3 mod si = 0 then
            let st = get_current_stats a3;
                record = make_record vid st (frame_count a3)
            in Inr (reset_interval_stats a3, save record table, rc + 1)
          else Inr (a3, table, rc))"

datatype loop_result =
    Aborted exn "EngagementRecord list" int
  | Finished analyzer "EngagementRecord list" int

fun run_loop ::
  "int \<Rightarrow> int option \<Rightarrow> read_event list \<Rightarrow> analyzer \<Rightarrow> EngagementRecord list \<Rightarrow> int
   \<Rightarrow> loop_result" where
  "run_loop si vid [] a table rc = Finished a table rc"
| "run_loop si vid (Read_raises e # evs) a table rc = Aborted e table rc"
| "run_loop si vid (Read frame # evs) a table rc =
     (case loop_body si vid frame a table rc of
        Inl e \<Rightarrow> Aborted e table rc
      | Inr (a', table', rc') \<Rightarrow> run_loop si vid evs a' table' rc')"

text \<open>
  The statements after the loop: the final flush and the summary.  The test
  \<open>analyzer.frame_count % save_interval != 0\<close> is outside the \<open>try\<close> block.
\<close>

definition final_flush ::
  "int \<Rightarrow> int option \<Rightarrow> analyzer \<Rightarrow> EngagementRecord list \<Rightarrow> int
   \<Rightarrow> outcome \<times> EngagementRecord list" where
  "final_flush si vid a table rc =
     (if si = 0 then (Raises ZeroDivisionError, table)
      else
        let st = get_current_stats a;
            flush = (frame_count a mod si \<noteq> 0 \<and> total_students st > 0);
            table' = (if flush then save (make_record vid st (frame_count a)) table else table);
            rc' = (if flush then rc + 1 else rc)
        in (Returns (Success (frame_count a) (total_faces_detected a) rc'
                       (get_cumulative_stats a)), table'))"

definition process_video ::
  "env \<Rightarrow> int option \<Rightarrow> int \<Rightarrow> EngagementRecord list \<Rightarrow> outcome \<times> EngagementRecord list" where
  "process_video e vid si table =
     (if \<not> cv2_available e then (Returns (Failure ''OpenCV is not installed'' 0), table)
      else if \<not> path_exists e then (Returns (Failure ''Video file not found'' 0), table)
      else
        let a = init_analyzer e si in
        if \<not> is_opened e then (Returns (Failure ''Could not open video file'' 0), table)
        else
          (case run_loop si vid (reads e) a table 0 of
             Aborted ex table' rc \<Rightarrow> (Returns (Failure (str ex) rc), table')
           | Finished a' table' rc \<Rightarrow> final_flush si vid a' table' rc))"

subsection \<open>simulate\_processing\<close>

text \<open>
  The random generator is a sequence of draws and the position of the next one.
  \<open>random.randint(a, b)\<close> maps the draw into the closed range from \<open>a\<close> to \<open>b\<close>, so
  that every value of the range is the image of some draw, and raises ValueError on an
  empty range.
\<close>

type_synonym rng = "(nat \<Rightarrow> nat) \<times> nat"

fun randint :: "int \<Rightarrow> int \<Rightarrow> rng \<Rightarrow> exn + (int \<times> rng)" where
  "randint a b (g, i) =
     (if b < a then Inl (ValueError ''empty range for randrange()'')
      else Inr (a + int (g i mod nat (b - a + 1)), (g, Suc i)))"

text \<open>
  The loop \<open>for i in range(num_records)\<close>, over the list of the values of \<open>i\<close>.  The
  result holds the exception that ended the loop, if any, the generator, the table and
  the counter.  The local variables \<open>total\<close>, \<open>attentive\<close>, \<open>sleepy\<close>,
  \<open>distracted\<close> and \<open>neutral\<close> are written with a prime.
\<close>

fun simulate_loop ::
  "nat list \<Rightarrow> int option \<Rightarrow> rng \<Rightarrow> EngagementRecord list \<Rightarrow> int
   \<Rightarrow> exn option \<times> rng \<times> EngagementRecord list \<times> int" where
  "simulate_loop [] vid g table rc = (None, g, table, rc)"
| "simulate_loop (i # is) vid g table rc =
     (case randint 5 20 g of
        Inl e \<Rightarrow> (Some e, g, table, rc)
      | Inr (total', g1) \<Rightarrow>
     (case randint 2 total' g1 of
        Inl e \<Rightarrow> (Some e, g1, table, rc)
      | Inr (attentive', g2) \<Rightarrow>
     (case randint 0 (total' - attentive') g2 of
        Inl e \<Rightarrow> (Some e, g2, table, rc)
      | Inr (sleepy', g3) \<Rightarrow>
     (case randint 0 (total' - attentive' - sleepy') g3 of
        Inl e \<Rightarrow> (Some e, g3, table, rc)
      | Inr (distracted', g4) \<Rightarrow>
          let neutral' = total' - attentive' - sleepy' - distracted';
              engagement_pct =
                (if total' > 0 then real_of_int attentive' / real_of_int total' * 100 else 0);
              record =
                \<lparr>total_students = total',
                 attentive_count = attentive',
                 sleepy_count = sleepy',
                 distracted_count = distracted',
                 neutral_count = neutral',
                 engagement_percentage = engagement_pct,
                 video_upload_id = vid,
                 frame_number = int i * 30\<rparr>
          in simulate_loop is vid g4 (save record table) (rc + 1)))))"

definition simulate_processing ::
  "int option \<Rightarrow> rng \<Rightarrow> EngagementRecord list \<Rightarrow> outcome \<times> EngagementRecord list" where
  "simulate_processing vid g table =
     (case randint 10 30 g of
        Inl e \<Rightarrow> (Raises e, table)
      | Inr (num_records, g1) \<Rightarrow>
          (case simulate_loop [0..<nat num_records] vid g1 table 0 of
             (Some e, g2, table', rc) \<Rightarrow> (Raises e, table')
           | (None, g2, table', rc) \<Rightarrow> (Returns (Simulated rc), table')))"

section \<open>Properties and inputs used in the theorems\<close>

definition labels :: "string set" where
  "labels = {''Attentive'', ''Sleepy'', ''Distracted'', ''Neutral''}"

definition percentage_invariant :: "'a stats_scheme \<Rightarrow> bool" where
  "percentage_invariant s \<longleftrightarrow>
     engagement_percentage s =
       (if total_students s > 0
        then real_of_int (attentive_count s) / real_of_int (total_students s) * 100
        else 0)"

definition conserved :: "'a stats_scheme \<Rightarrow> bool" where
  "conserved s \<longleftrightarrow>
     attentive_count s + sleepy_count s + distracted_count s + neutral_count s = total_students s"

definition tally :: "counts \<Rightarrow> int" where
  "tally c = attentive c + sleepy c + distracted c + neutral c"

fun result_table :: "loop_result \<Rightarrow> EngagementRecord list" where
  "result_table (Aborted e t rc) = t"
| "result_table (Finished a t rc) = t"

fun result_count :: "loop_result \<Rightarrow> int" where
  "result_count (Aborted e t rc) = rc"
| "result_count (Finished a t rc) = rc"

definition sound :: "EngagementRecord \<Rightarrow> bool" where
  "sound r \<longleftrightarrow> percentage_invariant r \<and> conserved r"

definition simulated_ranges :: "EngagementRecord \<Rightarrow> bool" where
  "simulated_ranges r \<longleftrightarrow>
     5 \<le> total_students r \<and> total_students r \<le> 20 \<and>
     2 \<le> attentive_count r \<and> attentive_count r \<le> total_students r \<and>
     0 \<le> sleepy_count r \<and> 0 \<le> distracted_count r \<and> 0 \<le> neutral_count r \<and>
     10 \<le> engagement_percentage r"

text \<open>
  Three regions with the statistics numpy returns on them: a 30 by 30 region with half of
  its pixels 0 and half 255, a 30 by 30 region with half of its pixels 40 and half 60, and
  a region of height 30 and width 60 with half of its pixels 60 and half 160.  Two
  regions that the method does not classify by the rules: one with a single axis, three
  pixels of value 7, and one of shape (0, 5), which has no pixels, so that its two
  statistics are not numbers; the method does not read them, and the fields hold 0.
\<close>

definition bright_face :: ndarray where
  "bright_face = \<lparr>shape = [30, 30], np_mean = 127.5, np_std = 127.5\<rparr>"

definition dim_face :: ndarray where
  "dim_face = \<lparr>shape = [30, 30], np_mean = 50, np_std = 10\<rparr>"

definition wide_face :: ndarray where
  "wide_face = \<lparr>shape = [30, 60], np_mean = 110, np_std = 50\<rparr>"

text \<open>
  A 3 by 3 region with the pixels 10, 10, 65, 65, 65, 65, 65, 0, 0.  The deviation of these
  nine values is exactly 30; the float that \<open>np.std\<close> returns is the one just below
  30, printed 29.999999999999996, and \<open>np.mean\<close> returns the float nearest to 345 / 9.
\<close>

definition threshold_face :: ndarray where
  "threshold_face =
     \<lparr>shape = [3, 3],
      np_mean = 5394937053620907 / 140737488355328,
      np_std = 8444249301319679 / 281474976710656\<rparr>"

definition empty_region :: ndarray where
  "empty_region = \<lparr>shape = [0, 5], np_mean = 0, np_std = 0\<rparr>"

definition flat_region :: ndarray where
  "flat_region = \<lparr>shape = [3], np_mean = 7, np_std = 0\<rparr>"

definition sleepy_frame :: frame where
  "sleepy_frame = Frame None (Inr [dim_face, dim_face])"

definition one_frame_env :: env where
  "one_frame_env =
     \<lparr>cv2_available = True, path_exists = True, cascade_exists = True, is_opened = True,
      reads = [Read (Some sleepy_frame)]\<rparr>"

definition missing_file_env :: env where
  "missing_file_env =
     \<lparr>cv2_available = True, path_exists = False, cascade_exists = True, is_opened = False,
      reads = []\<rparr>"

definition one_frame_row :: EngagementRecord where
  "one_frame_row =
     \<lparr>total_students = 2, attentive_count = 0, sleepy_count = 2, distracted_count = 0,
      neutral_count = 0, engagement_percentage = 0, video_upload_id = None, frame_number = 1\<rparr>"

definition zero_rng :: rng where
  "zero_rng = (\<lambda>i. 0, 0)"

definition sim_row :: "int \<Rightarrow> EngagementRecord" where
  "sim_row n =
     \<lparr>total_students = 5, attentive_count = 2, sleepy_count = 0, distracted_count = 0,
      neutral_count = 3, engagement_percentage = 40, video_upload_id = None, frame_number = n\<rparr>"

definition bad_row :: EngagementRecord where
  "bad_row =
     \<lparr>total_students = 4, attentive_count = 1, sleepy_count = 1, distracted_count = 1,
      neutral_count = 1, engagement_percentage = 99, video_upload_id = None, frame_number = 30\<rparr>"

definition attentive_pair :: "frame \<Rightarrow> bool" where
  "attentive_pair f \<longleftrightarrow>
     cvt_raises f = None \<and>
     (\<exists>r1 r2. detect f = Inr [r1, r2]
        \<and> classify_behavior (Some r1) = Inr ''Attentive''
        \<and> classify_behavior (Some r2) = Inr ''Attentive'')"

definition two_attentive :: counts where
  "two_attentive = \<lparr>attentive = 2, sleepy = 0, distracted = 0, neutral = 0\<rparr>"

definition full_attentive :: "EngagementRecord \<Rightarrow> bool" where
  "full_attentive r \<longleftrightarrow>
     total_students r = 60 \<and> attentive_count r = 60 \<and> engagement_percentage r = 100"

text \<open>The interval tally holds two attentive faces for each frame since the last flush.\<close>

definition in_step :: "analyzer \<Rightarrow> bool" where
  "in_step a \<longleftrightarrow>
     face_cascade a \<and>
     interval a = \<lparr>attentive = 2 * (frame_count a mod 30), sleepy = 0, distracted = 0, neutral = 0\<rparr>"

definition attentive_frame :: frame where
  "attentive_frame = Frame None (Inr [bright_face, bright_face])"

definition ninety_env :: env where
  "ninety_env =
     \<lparr>cv2_available = True, path_exists = True, cascade_exists = True, is_opened = True,
      reads = replicate 90 (Read (Some attentive_frame))\<rparr>"

definition empty_frame :: frame where
  "empty_frame = Frame None (Inr [])"

definition corrupt_frame :: frame where
  "corrupt_frame = Frame (Some (Error ''bad frame'')) (Inr [])"

definition scenario2_env :: env where
  "scenario2_env =
     \<lparr>cv2_available = True, path_exists = True, cascade_exists = True, is_opened = True,
      reads = replicate 30 (Read (Some sleepy_frame)) @ replicate 15 (Read (Some empty_frame))\<rparr>"

definition scenario2_row :: EngagementRecord where
  "scenario2_row =
     \<lparr>total_students = 60, attentive_count = 0, sleepy_count = 60, distracted_count = 0,
      neutral_count = 0, engagement_percentage = 0, video_upload_id = None, frame_number = 30\<rparr>"

definition scenario2_final :: analyzer where
  "scenario2_final =
     \<lparr>save_interval = 30, face_cascade = True, frame_count = 45, total_faces_detected = 60,
      interval = \<lparr>attentive = 0, sleepy = 0, distracted = 0, neutral = 0\<rparr>,
      cumulative_stats = \<lparr>attentive = 0, sleepy = 60, distracted = 0, neutral = 0\<rparr>\<rparr>"

definition one_frame_final :: analyzer where
  "one_frame_final =
     \<lparr>save_interval = 2, face_cascade = True, frame_count = 1, total_faces_detected = 2,
      interval = \<lparr>attentive = 0, sleepy = 2, distracted = 0, neutral = 0\<rparr>,
      cumulative_stats = \<lparr>attentive = 0, sleepy = 2, distracted = 0, neutral = 0\<rparr>\<rparr>"

definition broken_env :: env where
  "broken_env =
     \<lparr>cv2_available = True, path_exists = True, cascade_exists = True, is_opened = True,
      reads = [Read (Some sleepy_frame), Read (Some corrupt_frame), Read (Some sleepy_frame)]\<rparr>"

definition broken_mid :: analyzer where
  "broken_mid =
     \<lparr>save_interval = 1, face_cascade = True, frame_count = 1, total_faces_detected = 2,
      interval = \<lparr>attentive = 0, sleepy = 0, distracted = 0, neutral = 0\<rparr>,
      cumulative_stats = \<lparr>attentive = 0, sleepy = 2, distracted = 0, neutral = 0\<rparr>\<rparr>"

section \<open>Lemmas\<close>

lemma classify_stats_labels: "classify_stats b c r \<in> labels"
  by (simp add: classify_stats_def labels_def)

lemma classify_try_labels: "classify_try r = Inr l \<Longrightarrow> l \<in> labels"
  by (auto simp: classify_try_def labels_def classify_stats_def Let_def split: list.splits if_splits)

lemma classify_behavior_total: "\<exists>l\<in>labels. classify_behavior fr = Inr l"
proof (cases fr)
  case None
  then show ?thesis by (simp add: classify_behavior_def labels_def)
next
  case (Some r)
  show ?thesis
  proof (cases "classify_try r")
    case (Inl e)
    with Some show ?thesis by (simp add: classify_behavior_def labels_def)
  next
    case (Inr l)
    with Some classify_try_labels[OF Inr] show ?thesis
      by (simp add: classify_behavior_def labels_def)
  qed
qed

lemma count_faces_total:
  "\<exists>c'. count_faces faces c = Inr c' \<and> tally c' = tally c + int (length faces)
       \<and> attentive c \<le> attentive c' \<and> sleepy c \<le> sleepy c'
       \<and> distracted c \<le> distracted c' \<and> neutral c \<le> neutral c'"
proof (induction faces arbitrary: c)
  case Nil
  show ?case by simp
next
  case (Cons r faces)
  obtain l where l: "classify_behavior (Some r) = Inr l"
    using classify_behavior_total[of "Some r"] by blast
  let ?c1 = "if l = ''Attentive'' then c\<lparr>attentive := attentive c + 1\<rparr>
             else if l = ''Sleepy'' then c\<lparr>sleepy := sleepy c + 1\<rparr>
             else if l = ''Distracted'' then c\<lparr>distracted := distracted c + 1\<rparr>
             else c\<lparr>neutral := neutral c + 1\<rparr>"
  have step: "count_faces (r # faces) c = count_faces faces ?c1"
    using l by simp
  have t1: "tally ?c1 = tally c + 1" by (simp add: tally_def)
  have m1: "attentive c \<le> attentive ?c1" "sleepy c \<le> sleepy ?c1"
    "distracted c \<le> distracted ?c1" "neutral c \<le> neutral ?c1" by simp_all
  from Cons.IH[of ?c1] obtain c' where c': "count_faces faces ?c1 = Inr c'"
    "tally c' = tally ?c1 + int (length faces)"
    "attentive ?c1 \<le> attentive c'" "sleepy ?c1 \<le> sleepy c'"
    "distracted ?c1 \<le> distracted c'" "neutral ?c1 \<le> neutral c'" by blast
  show ?case
    unfolding step using c' t1 m1 by (intro exI[of _ c']) (simp; linarith)
qed

lemma save_snoc:
  "save r t = t @ [r\<lparr>engagement_percentage :=
      (if total_students r > 0
       then real_of_int (attentive_count r) / real_of_int (total_students r) * 100 else 0)\<rparr>]"
  by (simp add: save_def)

lemma save_percentage_invariant: "\<exists>r'. save r t = t @ [r'] \<and> percentage_invariant r'
    \<and> total_students r' = total_students r \<and> attentive_count r' = attentive_count r
    \<and> sleepy_count r' = sleepy_count r \<and> distracted_count r' = distracted_count r
    \<and> neutral_count r' = neutral_count r \<and> frame_number r' = frame_number r
    \<and> video_upload_id r' = video_upload_id r"
  by (simp add: save_snoc percentage_invariant_def)

lemma current_stats_conserved: "conserved (get_current_stats a)"
  by (simp add: conserved_def get_current_stats_def Let_def)

lemma cumulative_stats_conserved: "conserved (get_cumulative_stats a)"
  by (simp add: conserved_def get_cumulative_stats_def Let_def)

lemma current_stats_percentage: "percentage_invariant (get_current_stats a)"
  by (simp add: percentage_invariant_def get_current_stats_def Let_def)

lemma cumulative_stats_percentage: "percentage_invariant (get_cumulative_stats a)"
  by (simp add: percentage_invariant_def get_cumulative_stats_def Let_def)

lemma save_snapshot_sound:
  "\<exists>r. save (make_record vid (get_current_stats a) n) t = t @ [r] \<and> sound r"
proof -
  let ?m = "make_record vid (get_current_stats a) n"
  obtain r' where r': "save ?m t = t @ [r']" "percentage_invariant r'"
    "total_students r' = total_students ?m" "attentive_count r' = attentive_count ?m"
    "sleepy_count r' = sleepy_count ?m" "distracted_count r' = distracted_count ?m"
    "neutral_count r' = neutral_count ?m"
    using save_percentage_invariant[of ?m t] by blast
  have "conserved r'"
    using r'(3-7) current_stats_conserved[of a]
    by (simp add: conserved_def make_record_def)
  with r' show ?thesis by (auto simp: sound_def)
qed

lemma loop_body_cases:
  assumes "loop_body si vid f a t rc = Inr (a', t', rc')"
  shows "(t' = t \<and> rc' = rc) \<or> (\<exists>r. t' = t @ [r] \<and> rc' = rc + 1 \<and> sound r)"
proof -
  let ?a1 = "a\<lparr>frame_count := frame_count a + 1\<rparr>"
  from assms obtain n c a2 where pf: "process_frame ?a1 f = Inr (n, c, a2)"
    by (auto simp: loop_body_def Let_def split: sum.splits)
  let ?a3 = "a2\<lparr>total_faces_detected := total_faces_detected a2 + n\<rparr>"
  from assms pf have si: "si \<noteq> 0"
    by (auto simp: loop_body_def Let_def split: if_splits)
  show ?thesis
  proof (cases "frame_count ?a3 mod si = 0")
    case True
    with assms pf si have "t' = save (make_record vid (get_current_stats ?a3) (frame_count ?a3)) t"
      "rc' = rc + 1"
      by (auto simp: loop_body_def Let_def)
    with save_snapshot_sound[of vid ?a3 "frame_count ?a3" t] show ?thesis by auto
  next
    case False
    with assms pf si show ?thesis by (auto simp: loop_body_def Let_def)
  qed
qed

lemma run_loop_appends:
  "\<exists>new. result_table (run_loop si vid evs a t rc) = t @ new
     \<and> result_count (run_loop si vid evs a t rc) = rc + int (length new)
     \<and> (\<forall>r\<in>set new. sound r)"
proof (induction evs arbitrary: a t rc)
  case Nil
  show ?case by simp
next
  case (Cons ev evs)
  show ?case
  proof (cases ev)
    case (Read_raises e)
    then show ?thesis by simp
  next
    case (Read f)
    show ?thesis
    proof (cases "loop_body si vid f a t rc")
      case (Inl e)
      with Read show ?thesis by simp
    next
      case (Inr res)
      obtain a' t' rc' where res: "res = (a', t', rc')" by (cases res) auto
      have step: "run_loop si vid (ev # evs) a t rc = run_loop si vid evs a' t' rc'"
        using Read Inr res by simp
      from Cons.IH[of a' t' rc'] obtain new where new:
        "result_table (run_loop si vid evs a' t' rc') = t' @ new"
        "result_count (run_loop si vid evs a' t' rc') = rc' + int (length new)"
        "\<forall>r\<in>set new. sound r" by blast
      from loop_body_cases[OF Inr[unfolded res]]
      consider "t' = t" "rc' = rc" | r where "t' = t @ [r]" "rc' = rc + 1" "sound r"
        by blast
      then show ?thesis
      proof cases
        case 1
        with new step show ?thesis by auto
      next
        case 2
        with new step show ?thesis
          by (intro exI[of _ "r # new"]) simp
      qed
    qed
  qed
qed

lemma run_loop_append:
  "run_loop si vid (pre @ post) a t rc =
     (case run_loop si vid pre a t rc of
        Aborted e t1 rc1 \<Rightarrow> Aborted e t1 rc1
      | Finished a1 t1 rc1 \<Rightarrow> run_loop si vid post a1 t1 rc1)"
proof (induction pre arbitrary: a t rc)
  case Nil
  show ?case by simp
next
  case (Cons ev pre)
  show ?case
  proof (cases ev)
    case (Read_raises e)
    then show ?thesis by simp
  next
    case (Read f)
    then show ?thesis using Cons.IH by (simp split: sum.splits prod.splits)
  qed
qed

lemma final_flush_appends:
  "\<exists>new. snd (final_flush si vid a t rc) = t @ new \<and> length new \<le> 1 \<and> (\<forall>r\<in>set new. sound r)
     \<and> (\<forall>s. fst (final_flush si vid a t rc) = Returns s \<longrightarrow>
            success s \<and> records_created s = rc + int (length new))"
proof (cases "si \<noteq> 0 \<and> frame_count a mod si \<noteq> 0 \<and> total_students (get_current_stats a) > 0")
  case True
  obtain r where r: "save (make_record vid (get_current_stats a) (frame_count a)) t = t @ [r]"
    "sound r" using save_snapshot_sound by blast
  with True show ?thesis
    by (intro exI[of _ "[r]"]) (simp add: final_flush_def Let_def)
next
  case False
  then show ?thesis
    by (intro exI[of _ "[]"]) (auto simp: final_flush_def Let_def)
qed

lemma process_video_appends:
  "\<exists>new. snd (process_video e vid si t) = t @ new \<and> (\<forall>r\<in>set new. sound r)
     \<and> (\<forall>s. fst (process_video e vid si t) = Returns s \<longrightarrow>
            records_created s = int (length new))"
proof -
  let ?L = "run_loop si vid (reads e) (init_analyzer e si) t 0"
  obtain new where new: "result_table ?L = t @ new" "result_count ?L = 0 + int (length new)"
    "\<forall>r\<in>set new. sound r" using run_loop_appends by blast
  show ?thesis
  proof (cases "cv2_available e \<and> path_exists e \<and> is_opened e")
    case False
    then show ?thesis by (intro exI[of _ "[]"]) (auto simp: process_video_def Let_def)
  next
    case True
    show ?thesis
    proof (cases ?L)
      case (Aborted ex t1 rc1)
      with True new show ?thesis
        by (intro exI[of _ new]) (simp add: process_video_def Let_def)
    next
      case (Finished a1 t1 rc1)
      obtain n2 where n2: "snd (final_flush si vid a1 t1 rc1) = t1 @ n2" "\<forall>r\<in>set n2. sound r"
        "\<forall>s. fst (final_flush si vid a1 t1 rc1) = Returns s \<longrightarrow>
            success s \<and> records_created s = rc1 + int (length n2)"
        using final_flush_appends by blast
      with True Finished new show ?thesis
        by (intro exI[of _ "new @ n2"]) (auto simp: process_video_def Let_def)
    qed
  qed
qed

lemma randint_range:
  assumes "a \<le> b"
  shows "\<exists>v. randint a b g = Inr (v, (fst g, Suc (snd g))) \<and> a \<le> v \<and> v \<le> b"
proof -
  obtain f i where g: "g = (f, i)" by (cases g) auto
  have pos: "0 < nat (b - a + 1)" using assms by simp
  have "f i mod nat (b - a + 1) < nat (b - a + 1)" using pos by simp
  then have "int (f i mod nat (b - a + 1)) \<le> b - a" using assms by linarith
  then show ?thesis using assms g by simp
qed

lemma percentage_at_least_10:
  assumes "2 \<le> (a::int)" "0 < t" "t \<le> 20"
  shows "10 \<le> real_of_int a / real_of_int t * 100"
proof -
  have "10 * real_of_int t \<le> 200" using assms by simp
  also have "\<dots> \<le> real_of_int a * 100" using assms by simp
  finally have "10 * real_of_int t \<le> real_of_int a * 100" .
  then have "10 \<le> real_of_int a * 100 / real_of_int t"
    using assms by (simp add: pos_le_divide_eq)
  then show ?thesis by simp
qed

lemma simulate_step:
  "\<exists>g' r. simulate_loop (i # is) vid g t rc = simulate_loop is vid g' (t @ [r]) (rc + 1)
     \<and> sound r \<and> simulated_ranges r"
proof -
  obtain tot g1 where tot: "randint 5 20 g = Inr (tot, g1)" "5 \<le> tot" "tot \<le> 20"
    using randint_range[of 5 20 g] by auto
  obtain att g2 where att: "randint 2 tot g1 = Inr (att, g2)" "2 \<le> att" "att \<le> tot"
    using randint_range[of 2 tot g1] tot by auto
  obtain sl g3 where sl: "randint 0 (tot - att) g2 = Inr (sl, g3)" "0 \<le> sl" "sl \<le> tot - att"
    using randint_range[of 0 "tot - att" g2] att by auto
  obtain di g4 where di: "randint 0 (tot - att - sl) g3 = Inr (di, g4)" "0 \<le> di"
    "di \<le> tot - att - sl"
    using randint_range[of 0 "tot - att - sl" g3] sl by auto
  let ?r = "\<lparr>total_students = tot, attentive_count = att, sleepy_count = sl,
             distracted_count = di, neutral_count = tot - att - sl - di,
             engagement_percentage = real_of_int att / real_of_int tot * 100,
             video_upload_id = vid, frame_number = int i * 30\<rparr>"
  have step: "simulate_loop (i # is) vid g t rc = simulate_loop is vid g4 (t @ [?r]) (rc + 1)"
    using tot att sl di by (simp add: Let_def save_snoc)
  have "sound ?r" using tot by (simp add: sound_def percentage_invariant_def conserved_def)
  moreover have "simulated_ranges ?r"
    using tot att sl di percentage_at_least_10[of att tot]
    by (simp add: simulated_ranges_def)
  ultimately show ?thesis using step by blast
qed

lemma simulate_loop_appends:
  "\<exists>g' new. simulate_loop is vid g t rc = (None, g', t @ new, rc + int (length is))
     \<and> length new = length is \<and> (\<forall>r\<in>set new. sound r \<and> simulated_ranges r)"
proof (induction "is" arbitrary: g t rc)
  case Nil
  show ?case by simp
next
  case (Cons i "is")
  obtain g1 r where s: "simulate_loop (i # is) vid g t rc = simulate_loop is vid g1 (t @ [r]) (rc + 1)"
    "sound r" "simulated_ranges r" using simulate_step by blast
  from Cons.IH[of g1 "t @ [r]" "rc + 1"] obtain g' new where n:
    "simulate_loop is vid g1 (t @ [r]) (rc + 1) = (None, g', (t @ [r]) @ new, rc + 1 + int (length is))"
    "length new = length is" "\<forall>r\<in>set new. sound r \<and> simulated_ranges r" by blast
  show ?case
    using s n by (intro exI[of _ g'] exI[of _ "r # new"]) simp
qed

lemma simulate_processing_appends:
  "\<exists>new. simulate_processing vid g t = (Returns (Simulated (int (length new))), t @ new)
     \<and> 10 \<le> length new \<and> length new \<le> 30 \<and> (\<forall>r\<in>set new. sound r \<and> simulated_ranges r)"
proof -
  obtain n g1 where n: "randint 10 30 g = Inr (n, g1)" "10 \<le> n" "n \<le> 30"
    using randint_range[of 10 30 g] by auto
  obtain g' new where new:
    "simulate_loop [0..<nat n] vid g1 t 0 = (None, g', t @ new, 0 + int (length [0..<nat n]))"
    "length new = length [0..<nat n]" "\<forall>r\<in>set new. sound r \<and> simulated_ranges r"
    using simulate_loop_appends by blast
  have len: "length new = nat n" using new(2) by simp
  have "simulate_processing vid g t = (Returns (Simulated (int (length new))), t @ new)"
    using n new(1) len by (simp add: simulate_processing_def)
  moreover have "10 \<le> length new" "length new \<le> 30" using len n by linarith+
  ultimately show ?thesis using new(3) by blast
qed

lemma classify_nonempty:
  assumes "size_nd r \<noteq> 0" "take 2 (shape r) = [h, w]"
  shows "classify_behavior (Some r) = Inr (classify_stats (np_mean r) (np_std r) (real w / real h))"
proof -
  have "shape r = h # w # drop 2 (shape r)"
    using assms(2) append_take_drop_id[of 2 "shape r"] by simp
  then have "prod_list (shape r) = h * (w * prod_list (drop 2 (shape r)))"
    by (metis prod_list.Cons)
  with assms(1) have "h \<noteq> 0" "w \<noteq> 0" by (auto simp: size_nd_def)
  with assms show ?thesis
    by (simp add: classify_behavior_def classify_try_def Let_def)
qed

lemma classify_bright_face: "classify_behavior (Some bright_face) = Inr ''Attentive''"
proof -
  have "classify_behavior (Some bright_face)
      = Inr (classify_stats (np_mean bright_face) (np_std bright_face) (real 30 / real 30))"
    by (rule classify_nonempty) (simp_all add: bright_face_def size_nd_def)
  then show ?thesis
    by (simp add: classify_stats_def bright_face_def)
qed

lemma classify_dim_face: "classify_behavior (Some dim_face) = Inr ''Sleepy''"
proof -
  have "classify_behavior (Some dim_face)
      = Inr (classify_stats (np_mean dim_face) (np_std dim_face) (real 30 / real 30))"
    by (rule classify_nonempty) (simp_all add: dim_face_def size_nd_def)
  then show ?thesis
    by (simp add: classify_stats_def dim_face_def)
qed

lemma process_frame_sleepy_frame:
  "face_cascade a \<Longrightarrow> process_frame a (Some sleepy_frame) =
     Inr (2, Some \<lparr>attentive = 0, sleepy = 2, distracted = 0, neutral = 0\<rparr>,
          a\<lparr>interval := add_counts (interval a) \<lparr>attentive = 0, sleepy = 2, distracted = 0, neutral = 0\<rparr>,
            cumulative_stats := add_counts (cumulative_stats a)
               \<lparr>attentive = 0, sleepy = 2, distracted = 0, neutral = 0\<rparr>\<rparr>)"
  by (simp add: process_frame_def sleepy_frame_def classify_dim_face zero_counts_def)

lemma one_frame_run:
  "snd (process_video one_frame_env None 1 []) = [one_frame_row]"
  by (simp add: process_video_def one_frame_env_def init_analyzer_def loop_body_def
      process_frame_sleepy_frame get_current_stats_def make_record_def save_def
      add_counts_def zero_counts_def reset_interval_stats_def final_flush_def Let_def
      one_frame_row_def)

lemma sim_step:
  "simulate_loop (i # is) None (\<lambda>i. 0, k) t rc =
     simulate_loop is None (\<lambda>i. 0, Suc (Suc (Suc (Suc k)))) (t @ [sim_row (int i * 30)]) (rc + 1)"
  by (simp add: save_def sim_row_def Let_def)

lemma upt_10: "[0..<10] = [0, 1, 2, 3, 4, 5, 6, 7, 8, 9::nat]"
  by code_simp

lemma sim_run:
  "simulate_processing None zero_rng [] =
     (Returns (Simulated 10), map sim_row [0, 30, 60, 90, 120, 150, 180, 210, 240, 270])"
  by (simp add: simulate_processing_def zero_rng_def sim_step upt_10 del: simulate_loop.simps(2))

lemma process_frame_attentive_pair:
  assumes "face_cascade a" "attentive_pair f"
  shows "process_frame a (Some f) =
     Inr (2, Some two_attentive,
          a\<lparr>interval := add_counts (interval a) two_attentive,
            cumulative_stats := add_counts (cumulative_stats a) two_attentive\<rparr>)"
proof -
  from assms(2) obtain r1 r2 where r: "cvt_raises f = None" "detect f = Inr [r1, r2]"
    "classify_behavior (Some r1) = Inr ''Attentive''"
    "classify_behavior (Some r2) = Inr ''Attentive''"
    by (auto simp: attentive_pair_def)
  have "count_faces [r1, r2] zero_counts = Inr two_attentive"
    using r(3,4) by (simp add: zero_counts_def two_attentive_def)
  then show ?thesis using assms(1) r(1,2) by (simp add: process_frame_def)
qed

lemma loop_body_no_flush:
  assumes "process_frame (a\<lparr>frame_count := frame_count a + 1\<rparr>) f = Inr (n, c, a2)"
    and "si \<noteq> 0" and "frame_count a2 mod si \<noteq> 0"
  shows "loop_body si vid f a t rc =
     Inr (a2\<lparr>total_faces_detected := total_faces_detected a2 + n\<rparr>, t, rc)"
  using assms by (simp add: loop_body_def Let_def)

lemma loop_body_flush:
  assumes "process_frame (a\<lparr>frame_count := frame_count a + 1\<rparr>) f = Inr (n, c, a2)"
    and "si \<noteq> 0" and "frame_count a2 mod si = 0"
  shows "loop_body si vid f a t rc =
     Inr (reset_interval_stats (a2\<lparr>total_faces_detected := total_faces_detected a2 + n\<rparr>),
          save (make_record vid (get_current_stats a2) (frame_count a2)) t, rc + 1)"
proof -
  have "get_current_stats (a2\<lparr>total_faces_detected := total_faces_detected a2 + n\<rparr>)
      = get_current_stats a2"
    by (simp add: get_current_stats_def Let_def)
  then show ?thesis using assms by (simp add: loop_body_def Let_def)
qed

lemma int_step:
  fixes x :: int
  shows "(x + 1) mod 30 = (if x mod 30 = 29 then 0 else x mod 30 + 1)"
    and "(x + 1) div 30 = (if x mod 30 = 29 then x div 30 + 1 else x div 30)"
proof -
  define q where "q = x div 30"
  define r where "r = x mod 30"
  have x: "x = 30 * q + r" and r: "0 \<le> r" "r < 30" by (simp_all add: q_def r_def)
  have m: "(x + 1) mod 30 = (r + 1) mod 30" and d: "(x + 1) div 30 = q + (r + 1) div 30"
    unfolding x by (simp_all add: add.assoc)
  show "(x + 1) mod 30 = (if r = 29 then 0 else r + 1)"
    unfolding m using r by (simp add: mod_pos_pos_trivial)
  show "(x + 1) div 30 = (if r = 29 then q + 1 else q)"
    unfolding d using r by (simp add: div_pos_pos_trivial)
qed

lemma flush_row_full_attentive:
  assumes "interval a = \<lparr>attentive = 60, sleepy = 0, distracted = 0, neutral = 0\<rparr>"
  shows "\<exists>r. save (make_record vid (get_current_stats a) n) t = t @ [r] \<and> full_attentive r"
  using assms
  by (simp add: save_snoc make_record_def get_current_stats_def Let_def full_attentive_def)

lemma loop_body_attentive_pair:
  assumes "in_step a" "attentive_pair f"
  shows "\<exists>a' new. loop_body 30 vid (Some f) a t rc = Inr (a', t @ new, rc + int (length new))
     \<and> in_step a'
     \<and> frame_count a' = frame_count a + 1
     \<and> total_faces_detected a' = total_faces_detected a + 2
     \<and> int (length new) = (frame_count a + 1) div 30 - frame_count a div 30
     \<and> (\<forall>r\<in>set new. full_attentive r)"
proof -
  define a1 where "a1 = a\<lparr>frame_count := frame_count a + 1\<rparr>"
  define a2 where "a2 = a1\<lparr>interval := add_counts (interval a1) two_attentive,
            cumulative_stats := add_counts (cumulative_stats a1) two_attentive\<rparr>"
  define a3 where "a3 = a2\<lparr>total_faces_detected := total_faces_detected a2 + 2\<rparr>"
  have fc1: "face_cascade a1" using assms(1) by (simp add: a1_def in_step_def)
  have pf: "process_frame (a\<lparr>frame_count := frame_count a + 1\<rparr>) (Some f)
      = Inr (2, Some two_attentive, a2)"
    using process_frame_attentive_pair[OF fc1 assms(2)] by (simp add: a1_def a2_def)
  have f2: "frame_count a2 = frame_count a + 1" by (simp add: a2_def a1_def)
  have f3: "frame_count a3 = frame_count a + 1" "face_cascade a3"
    "total_faces_detected a3 = total_faces_detected a + 2"
    using assms(1) by (simp_all add: a3_def a2_def a1_def in_step_def)
  have iv2: "interval a2 = \<lparr>attentive = 2 * (frame_count a mod 30) + 2, sleepy = 0,
      distracted = 0, neutral = 0\<rparr>"
    using assms(1) by (simp add: a2_def a1_def in_step_def add_counts_def two_attentive_def)
  have iv3: "interval a3 = interval a2" by (simp add: a3_def)
  show ?thesis
  proof (cases "frame_count a mod 30 = 29")
    case m: True
    have True: "(frame_count a + 1) mod 30 = 0" using int_step(1)[of "frame_count a"] m by simp
    have d: "(frame_count a + 1) div 30 - frame_count a div 30 = 1"
      using int_step(2)[of "frame_count a"] m by simp
    have "interval a2 = \<lparr>attentive = 60, sleepy = 0, distracted = 0, neutral = 0\<rparr>"
      using iv2 m by simp
    then obtain r where r:
      "save (make_record vid (get_current_stats a2) (frame_count a2)) t = t @ [r]"
      "full_attentive r"
      using flush_row_full_attentive by blast
    have lb: "loop_body 30 vid (Some f) a t rc = Inr (reset_interval_stats a3, t @ [r], rc + 1)"
      using loop_body_flush[OF pf, of 30 vid t rc] True f2 r(1) by (simp add: a3_def)
    have ok: "in_step (reset_interval_stats a3)"
      using f3 True by (simp add: in_step_def reset_interval_stats_def zero_counts_def)
    have fr: "frame_count (reset_interval_stats a3) = frame_count a + 1"
      "total_faces_detected (reset_interval_stats a3) = total_faces_detected a + 2"
      using f3 by (simp_all add: reset_interval_stats_def)
    show ?thesis
      using lb ok fr d r(2)
      by (intro exI[of _ "reset_interval_stats a3"] exI[of _ "[r]"]) simp
  next
    case n: False
    have m: "(frame_count a + 1) mod 30 = frame_count a mod 30 + 1"
      using int_step(1)[of "frame_count a"] n by simp
    have "0 \<le> frame_count a mod 30" by simp
    then have False: "(frame_count a + 1) mod 30 \<noteq> 0" using m by linarith
    have d: "(frame_count a + 1) div 30 - frame_count a div 30 = 0"
      using int_step(2)[of "frame_count a"] n by simp
    have lb: "loop_body 30 vid (Some f) a t rc = Inr (a3, t, rc)"
      using loop_body_no_flush[OF pf, of 30 vid t rc] False f2 by (simp add: a3_def)
    have ok: "in_step a3"
      using f3 iv3 iv2 m by (simp add: in_step_def)
    show ?thesis
      using lb ok f3 d
      by (intro exI[of _ a3] exI[of _ "[]"]) simp
  qed
qed

lemma run_loop_attentive_pairs:
  assumes "\<forall>f\<in>set fs. attentive_pair f" "in_step a"
  shows "\<exists>a' new. run_loop 30 vid (map (\<lambda>f. Read (Some f)) fs) a t rc
        = Finished a' (t @ new) (rc + int (length new))
     \<and> in_step a'
     \<and> frame_count a' = frame_count a + int (length fs)
     \<and> total_faces_detected a' = total_faces_detected a + 2 * int (length fs)
     \<and> int (length new) = (frame_count a + int (length fs)) div 30 - frame_count a div 30
     \<and> (\<forall>r\<in>set new. full_attentive r)"
  using assms
proof (induction fs arbitrary: a t rc)
  case Nil
  then show ?case by (intro exI[of _ a] exI[of _ "[]"]) simp
next
  case (Cons f fs)
  from Cons.prems have f: "attentive_pair f" and fs: "\<forall>f\<in>set fs. attentive_pair f" by auto
  from loop_body_attentive_pair[OF Cons.prems(2) f, of vid t rc]
  obtain a1 n1 where s1: "loop_body 30 vid (Some f) a t rc = Inr (a1, t @ n1, rc + int (length n1))"
    "in_step a1"
    "frame_count a1 = frame_count a + 1"
    "total_faces_detected a1 = total_faces_detected a + 2"
    "int (length n1) = (frame_count a + 1) div 30 - frame_count a div 30"
    "\<forall>r\<in>set n1. full_attentive r" by blast
  from Cons.IH[OF fs s1(2), of "t @ n1" "rc + int (length n1)"]
  obtain a' n2 where s2: "run_loop 30 vid (map (\<lambda>f. Read (Some f)) fs) a1 (t @ n1) (rc + int (length n1))
        = Finished a' ((t @ n1) @ n2) (rc + int (length n1) + int (length n2))"
    "in_step a'"
    "frame_count a' = frame_count a1 + int (length fs)"
    "total_faces_detected a' = total_faces_detected a1 + 2 * int (length fs)"
    "int (length n2) = (frame_count a1 + int (length fs)) div 30 - frame_count a1 div 30"
    "\<forall>r\<in>set n2. full_attentive r" by blast
  have run: "run_loop 30 vid (map (\<lambda>f. Read (Some f)) (f # fs)) a t rc
      = Finished a' (t @ (n1 @ n2)) (rc + int (length (n1 @ n2)))"
    using s1(1) s2(1) by simp
  have len: "int (length (n1 @ n2))
      = (frame_count a + int (length (f # fs))) div 30 - frame_count a div 30"
    using s1(3,5) s2(5) by (simp add: add.assoc add.commute)
  have all: "\<forall>r\<in>set (n1 @ n2). full_attentive r" using s1(6) s2(6) by auto
  have fc: "frame_count a' = frame_count a + int (length (f # fs))" using s1(3) s2(3) by simp
  have tf: "total_faces_detected a' = total_faces_detected a + 2 * int (length (f # fs))"
    using s1(4) s2(4) by simp
  show ?case
    using run len all fc tf s2(2)
    by (intro exI[of _ a'] exI[of _ "n1 @ n2"]) blast
qed

lemma ninety_attentive_run:
  assumes "cv2_available e" "path_exists e" "cascade_exists e" "is_opened e"
    and "reads e = map (\<lambda>f. Read (Some f)) fs" and "length fs = 90"
    and "\<forall>f\<in>set fs. attentive_pair f"
  shows "\<exists>new st. process_video e vid 30 [] = (Returns (Success 90 180 3 st), new)
     \<and> length new = 3 \<and> (\<forall>r\<in>set new. full_attentive r)"
proof -
  let ?a = "init_analyzer e 30"
  have st: "in_step ?a" "frame_count ?a = 0" "total_faces_detected ?a = 0"
    using assms(1,3) by (simp_all add: in_step_def init_analyzer_def zero_counts_def)
  from run_loop_attentive_pairs[OF assms(7) st(1), of vid "[]" 0]
  obtain a' new where r: "run_loop 30 vid (map (\<lambda>f. Read (Some f)) fs) ?a [] 0
        = Finished a' ([] @ new) (0 + int (length new))"
    "frame_count a' = frame_count ?a + int (length fs)"
    "total_faces_detected a' = total_faces_detected ?a + 2 * int (length fs)"
    "int (length new) = (frame_count ?a + int (length fs)) div 30 - frame_count ?a div 30"
    "\<forall>r\<in>set new. full_attentive r" by blast
  have fc: "frame_count a' = 90" "total_faces_detected a' = 180" "length new = 3"
    using r(2,3,4) st(2,3) assms(6) by simp_all
  have "final_flush 30 vid a' new 3
      = (Returns (Success 90 180 3 (get_cumulative_stats a')), new)"
    using fc by (simp add: final_flush_def Let_def)
  then have "process_video e vid 30 [] = (Returns (Success 90 180 3 (get_cumulative_stats a')), new)"
    using assms(1,2,4,5) r(1) fc(3) by (simp add: process_video_def Let_def)
  then show ?thesis using fc(3) r(5) by blast
qed

lemma attentive_frame_pair: "attentive_pair attentive_frame"
  by (simp add: attentive_pair_def attentive_frame_def classify_bright_face)

lemma ninety_env_run:
  "\<exists>new st. process_video ninety_env None 30 [] = (Returns (Success 90 180 3 st), new)
     \<and> length new = 3 \<and> (\<forall>r\<in>set new. full_attentive r)"
proof (rule ninety_attentive_run[where fs = "replicate 90 attentive_frame"])
  show "reads ninety_env = map (\<lambda>f. Read (Some f)) (replicate 90 attentive_frame)"
    by (simp add: ninety_env_def)
  show "\<forall>f\<in>set (replicate 90 attentive_frame). attentive_pair f"
    using attentive_frame_pair by simp
qed (simp_all add: ninety_env_def)

lemma process_frame_empty_frame:
  "process_frame a (Some empty_frame) =
     Inr (0, Some zero_counts,
          a\<lparr>interval := add_counts (interval a) zero_counts,
            cumulative_stats := add_counts (cumulative_stats a) zero_counts\<rparr>)"
  by (simp add: process_frame_def empty_frame_def)

lemma process_frame_corrupt_frame:
  "process_frame a (Some corrupt_frame) = Inl (Error ''bad frame'')"
  by (simp add: process_frame_def corrupt_frame_def)

lemma scenario2_loop:
  "run_loop 30 None (reads scenario2_env) (init_analyzer scenario2_env 30) [] 0
     = Finished scenario2_final [scenario2_row] 1"
  by (simp add: scenario2_env_def init_analyzer_def loop_body_def
      process_frame_sleepy_frame process_frame_empty_frame get_current_stats_def
      make_record_def save_def add_counts_def zero_counts_def reset_interval_stats_def Let_def
      scenario2_final_def scenario2_row_def eval_nat_numeral)

lemma broken_loop_prefix:
  "run_loop 1 None [Read (Some sleepy_frame)] (init_analyzer broken_env 1) [] 0
     = Finished broken_mid [one_frame_row] 1"
  by (simp add: broken_env_def init_analyzer_def loop_body_def
      process_frame_sleepy_frame get_current_stats_def
      make_record_def save_def add_counts_def zero_counts_def reset_interval_stats_def Let_def
      broken_mid_def one_frame_row_def)

lemma broken_loop_event:
  "run_loop 1 None [Read (Some corrupt_frame)] broken_mid [one_frame_row] 1
     = Aborted (Error ''bad frame'') [one_frame_row] 1"
  by (simp add: loop_body_def process_frame_corrupt_frame Let_def)

lemma one_frame_loop:
  "run_loop 2 None (reads one_frame_env) (init_analyzer one_frame_env 2) [] 0
     = Finished one_frame_final [] 0"
  by (simp add: one_frame_env_def init_analyzer_def loop_body_def
      process_frame_sleepy_frame add_counts_def zero_counts_def Let_def one_frame_final_def)

lemma run_loop_zero_interval:
  assumes "run_loop 0 vid evs a t rc = Finished a' t' rc'"
  shows "evs = [] \<and> a' = a \<and> t' = t \<and> rc' = rc"
proof (cases evs)
  case Nil
  with assms show ?thesis by simp
next
  case (Cons ev rest)
  show ?thesis
  proof (cases ev)
    case (Read_raises x)
    with Cons assms show ?thesis by simp
  next
    case (Read f)
    have "\<exists>x. loop_body 0 vid f a t rc = Inl x"
      by (auto simp: loop_body_def Let_def split: sum.splits)
    with Cons Read assms show ?thesis by auto
  qed
qed

lemma run_loop_single_abort:
  assumes "run_loop si vid [ev] a t rc = Aborted x t' rc'"
  shows "run_loop si vid (ev # post) a t rc = Aborted x t rc"
proof (cases ev)
  case (Read_raises y)
  with assms show ?thesis by simp
next
  case (Read f)
  with assms show ?thesis by (auto split: sum.splits)
qed

section \<open>The claims\<close>

subsection \<open>C1: ninety frames of two attentive faces\<close>

text \<open>
  C1, as amended.  On a source of 90 frames, each with exactly two detected faces that are
  both classified Attentive, \<open>process_video\<close> with \<open>save_interval\<close> 30 returns a
  successful summary with 90 frames, 180 faces and 3 records, and stores exactly 3 rows.
  The interval tally adds the faces of all 30 frames of the interval, so each row has
  \<open>total_students\<close> 60, \<open>attentive_count\<close> 60 and \<open>engagement_percentage\<close> 100.
\<close>

theorem ninety_attentive_frames:
  assumes "cv2_available e" and "path_exists e" and "cascade_exists e" and "is_opened e"
    and "reads e = map (\<lambda>f. Read (Some f)) fs" and "length fs = 90"
    and "\<forall>f\<in>set fs. attentive_pair f"
  shows "\<exists>new st. process_video e vid 30 [] = (Returns (Success 90 180 3 st), new)
     \<and> length new = 3
     \<and> (\<forall>r\<in>set new. total_students r = 60 \<and> attentive_count r = 60
            \<and> engagement_percentage r = 100)"
  using ninety_attentive_run[OF assms, of vid] by (simp add: full_attentive_def)

theorem ninety_attentive_frames_witness:
  "cv2_available ninety_env \<and> path_exists ninety_env \<and> cascade_exists ninety_env
   \<and> is_opened ninety_env
   \<and> reads ninety_env = map (\<lambda>f. Read (Some f)) (replicate 90 attentive_frame)
   \<and> length (replicate 90 attentive_frame) = 90
   \<and> attentive_pair attentive_frame
   \<and> (\<exists>new st. process_video ninety_env None 30 [] = (Returns (Success 90 180 3 st), new)
        \<and> length new = 3
        \<and> (\<forall>r\<in>set new. total_students r = 60 \<and> attentive_count r = 60
              \<and> engagement_percentage r = 100))"
proof -
  have h: "cv2_available ninety_env" "path_exists ninety_env" "cascade_exists ninety_env"
    "is_opened ninety_env"
    "reads ninety_env = map (\<lambda>f. Read (Some f)) (replicate 90 attentive_frame)"
    "length (replicate 90 attentive_frame) = 90"
    by (simp_all add: ninety_env_def)
  have p: "\<forall>f\<in>set (replicate 90 attentive_frame). attentive_pair f"
    using attentive_frame_pair by simp
  show ?thesis
    using h attentive_frame_pair ninety_attentive_frames[OF h p, of None] by simp
qed

text \<open>
  C1 as stated fails on that source: the rows do not have \<open>total_students\<close> 2.
\<close>

theorem ninety_attentive_frames_counterexample:
  "\<not> (\<forall>r\<in>set (snd (process_video ninety_env None 30 [])).
         total_students r = 2 \<and> attentive_count r = 2 \<and> engagement_percentage r = 100)"
proof
  assume a: "\<forall>r\<in>set (snd (process_video ninety_env None 30 [])).
         total_students r = 2 \<and> attentive_count r = 2 \<and> engagement_percentage r = 100"
  obtain new st where n: "process_video ninety_env None 30 [] = (Returns (Success 90 180 3 st), new)"
    "length new = 3" "\<forall>r\<in>set new. full_attentive r"
    using ninety_env_run by blast
  from n(2) obtain r where r: "r \<in> set new" by (cases new) auto
  with n(3) have "total_students r = 60" by (simp add: full_attentive_def)
  moreover from a n(1) r have "total_students r = 2" by simp
  ultimately show False by simp
qed

subsection \<open>C2: the order of the classification rules\<close>

text \<open>
  C2.  On a non-empty face region of height \<open>h\<close> and width \<open>w\<close>, with brightness the
  value of \<open>np.mean\<close> on it, contrast the value of \<open>np.std\<close> on it and aspect ratio
  \<open>w / h\<close>, \<open>classify_behavior\<close> returns the first rule that matches, in the order
  Sleepy, Distracted, Attentive, Neutral.  The two regression inputs of the specification
  are the regions \<open>dim_face\<close> (brightness 50, contrast 10, ratio 1) and \<open>wide_face\<close>
  (brightness 110, contrast 50, ratio 2) of the witness; \<open>threshold_face\<close>, whose
  contrast is the float just below 30, is Sleepy.
\<close>

theorem classify_behavior_rule_order:
  assumes "size_nd r \<noteq> 0" and "take 2 (shape r) = [h, w]"
  shows "classify_behavior (Some r) =
     Inr (if np_mean r < 80 \<and> np_std r < 30 then ''Sleepy''
          else if real w / real h < 0.6 \<or> real w / real h > 1.4 then ''Distracted''
          else if np_mean r > 100 \<and> np_std r > 40
                  \<and> 0.7 < real w / real h \<and> real w / real h < 1.3 then ''Attentive''
          else ''Neutral'')"
  using classify_nonempty[OF assms] by (simp add: classify_stats_def)

theorem classify_behavior_rule_order_witness:
  "size_nd dim_face \<noteq> 0 \<and> take 2 (shape dim_face) = [30, 30]
   \<and> np_mean dim_face = 50 \<and> np_std dim_face = 10
   \<and> classify_behavior (Some dim_face) = Inr ''Sleepy''
   \<and> size_nd wide_face \<noteq> 0 \<and> take 2 (shape wide_face) = [30, 60]
   \<and> np_mean wide_face = 110 \<and> np_std wide_face = 50
   \<and> classify_behavior (Some wide_face) = Inr ''Distracted''
   \<and> size_nd threshold_face \<noteq> 0 \<and> take 2 (shape threshold_face) = [3, 3]
   \<and> np_std threshold_face < 30
   \<and> classify_behavior (Some threshold_face) = Inr ''Sleepy''"
proof -
  have d: "size_nd dim_face \<noteq> 0" "take 2 (shape dim_face) = [30, 30]"
    by (simp_all add: dim_face_def size_nd_def)
  have w: "size_nd wide_face \<noteq> 0" "take 2 (shape wide_face) = [30, 60]"
    by (simp_all add: wide_face_def size_nd_def)
  have t: "size_nd threshold_face \<noteq> 0" "take 2 (shape threshold_face) = [3, 3]"
    by (simp_all add: threshold_face_def size_nd_def)
  have "classify_behavior (Some dim_face) = Inr ''Sleepy''"
    using classify_behavior_rule_order[OF d] by (simp add: dim_face_def)
  moreover have "classify_behavior (Some wide_face) = Inr ''Distracted''"
    using classify_behavior_rule_order[OF w] by (simp add: wide_face_def)
  moreover have "classify_behavior (Some threshold_face) = Inr ''Sleepy''"
    using classify_behavior_rule_order[OF t] by (simp add: threshold_face_def)
  moreover have "np_std threshold_face < 30" by (simp add: threshold_face_def)
  ultimately show ?thesis
    using d w t by (simp add: dim_face_def wide_face_def)
qed

subsection \<open>C3: the classifier is total\<close>

text \<open>
  C3.  \<open>classify_behavior\<close> returns one of the four labels on every input and raises
  nothing; it returns Neutral on \<open>None\<close>, on every region of size zero, and whenever the
  body of its \<open>try\<close> block raises.
\<close>

theorem classify_behavior_never_raises:
  "classify_behavior fr \<in> {Inr ''Attentive'', Inr ''Sleepy'', Inr ''Distracted'', Inr ''Neutral''}
   \<and> classify_behavior None = Inr ''Neutral''
   \<and> (size_nd r = 0 \<longrightarrow> classify_behavior (Some r) = Inr ''Neutral'')
   \<and> (classify_try r = Inl e \<longrightarrow> classify_behavior (Some r) = Inr ''Neutral'')"
proof -
  obtain l where "l \<in> labels" "classify_behavior fr = Inr l"
    using classify_behavior_total[of fr] by blast
  then have "classify_behavior fr
      \<in> {Inr ''Attentive'', Inr ''Sleepy'', Inr ''Distracted'', Inr ''Neutral''}"
    by (auto simp: labels_def)
  then show ?thesis by (simp add: classify_behavior_def)
qed

theorem classify_behavior_never_raises_witness:
  "size_nd empty_region = 0
   \<and> classify_behavior (Some empty_region) = Inr ''Neutral''
   \<and> classify_try flat_region = Inl (ValueError ''not enough values to unpack'')
   \<and> classify_behavior (Some flat_region) = Inr ''Neutral''"
proof -
  have a: "size_nd empty_region = 0" by (simp add: size_nd_def empty_region_def)
  have b: "classify_try flat_region = Inl (ValueError ''not enough values to unpack'')"
    by (simp add: classify_try_def flat_region_def)
  show ?thesis
    using a b
      classify_behavior_never_raises[of None empty_region]
      classify_behavior_never_raises[of None flat_region
        "ValueError ''not enough values to unpack''"]
    by simp
qed

subsection \<open>C4: the engagement percentage\<close>

text \<open>
  C4.  In the interval snapshot, in the cumulative snapshot and in every row stored by
  \<open>process_video\<close> or \<open>simulate_processing\<close>, \<open>engagement_percentage\<close> is
  \<open>attentive_count / total_students * 100\<close> when \<open>total_students\<close> is positive and 0
  otherwise.
\<close>

theorem engagement_percentage_formula:
  "percentage_invariant (get_current_stats a)
   \<and> percentage_invariant (get_cumulative_stats a)
   \<and> ((\<forall>r\<in>set table. percentage_invariant r) \<longrightarrow>
        (\<forall>r\<in>set (snd (process_video e vid si table)). percentage_invariant r)
        \<and> (\<forall>r\<in>set (snd (simulate_processing vid g table)). percentage_invariant r))"
proof -
  obtain n1 where n1: "snd (process_video e vid si table) = table @ n1" "\<forall>r\<in>set n1. sound r"
    using process_video_appends[of e vid si table] by blast
  obtain n2 where n2: "simulate_processing vid g table = (Returns (Simulated (int (length n2))), table @ n2)"
    "\<forall>r\<in>set n2. sound r \<and> simulated_ranges r"
    using simulate_processing_appends[of vid g table] by blast
  show ?thesis
    using n1 n2 current_stats_percentage[of a] cumulative_stats_percentage[of a]
    by (auto simp: sound_def)
qed

theorem engagement_percentage_formula_witness:
  "snd (process_video one_frame_env None 1 []) = [one_frame_row]
   \<and> percentage_invariant one_frame_row
   \<and> snd (simulate_processing None zero_rng []) =
        map sim_row [0, 30, 60, 90, 120, 150, 180, 210, 240, 270]
   \<and> percentage_invariant (sim_row 0)"
  using engagement_percentage_formula[where table = "[]" and e = one_frame_env and vid = None
      and si = 1 and g = zero_rng]
  by (simp add: one_frame_run sim_run)

subsection \<open>C5: the final flush\<close>

text \<open>
  C5.  When the loop ends at the end of the stream, \<open>process_video\<close> stores one more
  row, the snapshot of the interval tally, exactly when the frame counter is not a
  multiple of \<open>save_interval\<close> and the tally is not empty; otherwise it stores nothing
  more.  In the witness, a source of 45 frames with two faces in each of the first 30
  frames and none afterwards, at \<open>save_interval\<close> 30, leaves exactly the row of frame 30,
  and a source of one frame at \<open>save_interval\<close> 2 gets its row from the final flush.
\<close>

theorem final_flush_condition:
  assumes "cv2_available e" and "path_exists e" and "is_opened e"
    and "run_loop si vid (reads e) (init_analyzer e si) table 0 = Finished a t rc"
  shows "snd (process_video e vid si table) =
       (if \<not> si dvd frame_count a \<and> 0 < total_students (get_current_stats a)
        then save (make_record vid (get_current_stats a) (frame_count a)) t else t)
   \<and> length (snd (process_video e vid si table)) =
       length t + (if \<not> si dvd frame_count a \<and> 0 < total_students (get_current_stats a)
                   then 1 else 0)
   \<and> (si \<noteq> 0 \<longrightarrow> fst (process_video e vid si table) =
         Returns (Success (frame_count a) (total_faces_detected a)
           (rc + (if \<not> si dvd frame_count a \<and> 0 < total_students (get_current_stats a)
                  then 1 else 0))
           (get_cumulative_stats a)))"
proof -
  have pv: "process_video e vid si table = final_flush si vid a t rc"
    using assms by (simp add: process_video_def Let_def)
  show ?thesis
  proof (cases "si = 0")
    case True
    with assms(4) have "a = init_analyzer e si" using run_loop_zero_interval by blast
    then have "frame_count a = 0" by (simp add: init_analyzer_def)
    with True pv show ?thesis by (simp add: final_flush_def)
  next
    case False
    then have "(frame_count a mod si \<noteq> 0) = (\<not> si dvd frame_count a)"
      by (simp add: dvd_eq_mod_eq_0)
    with False pv show ?thesis by (simp add: final_flush_def Let_def save_def)
  qed
qed

theorem final_flush_condition_witness:
  "run_loop 30 None (reads scenario2_env) (init_analyzer scenario2_env 30) [] 0
     = Finished scenario2_final [scenario2_row] 1
   \<and> frame_count scenario2_final = 45
   \<and> total_students (get_current_stats scenario2_final) = 0
   \<and> process_video scenario2_env None 30 []
     = (Returns (Success 45 60 1 (get_cumulative_stats scenario2_final)), [scenario2_row])
   \<and> run_loop 2 None (reads one_frame_env) (init_analyzer one_frame_env 2) [] 0
     = Finished one_frame_final [] 0
   \<and> frame_count one_frame_final = 1
   \<and> total_students (get_current_stats one_frame_final) = 2
   \<and> process_video one_frame_env None 2 []
     = (Returns (Success 1 2 1 (get_cumulative_stats one_frame_final)), [one_frame_row])"
proof -
  have e2: "cv2_available scenario2_env" "path_exists scenario2_env" "is_opened scenario2_env"
    by (simp_all add: scenario2_env_def)
  have e1: "cv2_available one_frame_env" "path_exists one_frame_env" "is_opened one_frame_env"
    by (simp_all add: one_frame_env_def)
  have s2: "frame_count scenario2_final = 45"
    "total_students (get_current_stats scenario2_final) = 0"
    "total_faces_detected scenario2_final = 60"
    by (simp_all add: scenario2_final_def get_current_stats_def)
  have s1: "frame_count one_frame_final = 1"
    "total_students (get_current_stats one_frame_final) = 2"
    "total_faces_detected one_frame_final = 2"
    "save (make_record None (get_current_stats one_frame_final) 1) [] = [one_frame_row]"
    by (simp_all add: one_frame_final_def get_current_stats_def make_record_def save_def
        one_frame_row_def)
  have a: "process_video scenario2_env None 30 []
     = (Returns (Success 45 60 1 (get_cumulative_stats scenario2_final)), [scenario2_row])"
    using final_flush_condition[OF e2 scenario2_loop] s2
    by (simp add: prod_eq_iff)
  have b: "process_video one_frame_env None 2 []
     = (Returns (Success 1 2 1 (get_cumulative_stats one_frame_final)), [one_frame_row])"
    using final_flush_condition[OF e1 one_frame_loop] s1
    by (simp add: prod_eq_iff)
  show ?thesis using a b s1 s2 scenario2_loop one_frame_loop by simp
qed

subsection \<open>C6: a source that is missing or cannot be opened\<close>

text \<open>
  C6.  When the video path does not exist or the capture does not open, \<open>process_video\<close>
  returns a summary with \<open>success\<close> False, a non-empty \<open>error\<close> and
  \<open>records_created\<close> 0, and the table is unchanged.
\<close>

theorem unopened_source_fails:
  assumes "\<not> path_exists e \<or> \<not> is_opened e"
  shows "\<exists>s. process_video e vid si table = (Returns s, table)
     \<and> \<not> success s \<and> error s \<noteq> [] \<and> records_created s = 0"
  using assms by (auto simp: process_video_def Let_def)

theorem unopened_source_fails_witness:
  "\<not> path_exists missing_file_env
   \<and> process_video missing_file_env None 30 [] = (Returns (Failure ''Video file not found'' 0), [])"
proof -
  have h: "\<not> path_exists missing_file_env \<or> \<not> is_opened missing_file_env"
    by (simp add: missing_file_env_def)
  obtain s where "process_video missing_file_env None 30 [] = (Returns s, [])"
    using unopened_source_fails[OF h, of None 30 "[]"] by blast
  then show ?thesis
    using h by (simp add: process_video_def missing_file_env_def)
qed

subsection \<open>C7: an error in the middle of a run\<close>

text \<open>
  C7.  When the reads before an event complete and the read or the processing of that
  event raises, \<open>process_video\<close> returns a failed summary whose \<open>error\<close> is the text
  of the exception and whose \<open>records_created\<close> is the number of rows stored before the
  event; the table is the one reached before the event, the initial table with those rows
  appended.
\<close>

theorem error_keeps_committed_records:
  assumes "cv2_available e" and "path_exists e" and "is_opened e"
    and "reads e = pre @ ev # post"
    and "run_loop si vid pre (init_analyzer e si) table 0 = Finished a t rc"
    and "run_loop si vid [ev] a t rc = Aborted x t' rc'"
  shows "process_video e vid si table = (Returns (Failure (str x) rc), t)
   \<and> (\<exists>new. t = table @ new \<and> rc = int (length new))"
proof -
  have "run_loop si vid (pre @ ev # post) (init_analyzer e si) table 0 = Aborted x t rc"
    using run_loop_append[of si vid pre "ev # post"] assms(5)
      run_loop_single_abort[OF assms(6), of post] by simp
  then have pv: "process_video e vid si table = (Returns (Failure (str x) rc), t)"
    using assms(1-4) by (simp add: process_video_def Let_def)
  obtain new where "result_table (run_loop si vid pre (init_analyzer e si) table 0) = table @ new"
    "result_count (run_loop si vid pre (init_analyzer e si) table 0) = 0 + int (length new)"
    using run_loop_appends by blast
  with assms(5) have "t = table @ new" "rc = int (length new)" by simp_all
  with pv show ?thesis by blast
qed

theorem error_keeps_committed_records_witness:
  "reads broken_env = [Read (Some sleepy_frame)] @ Read (Some corrupt_frame) # [Read (Some sleepy_frame)]
   \<and> run_loop 1 None [Read (Some sleepy_frame)] (init_analyzer broken_env 1) [] 0
       = Finished broken_mid [one_frame_row] 1
   \<and> run_loop 1 None [Read (Some corrupt_frame)] broken_mid [one_frame_row] 1
       = Aborted (Error ''bad frame'') [one_frame_row] 1
   \<and> process_video broken_env None 1 [] = (Returns (Failure ''bad frame'' 1), [one_frame_row])"
proof -
  have e: "cv2_available broken_env" "path_exists broken_env" "is_opened broken_env"
    "reads broken_env
       = [Read (Some sleepy_frame)] @ Read (Some corrupt_frame) # [Read (Some sleepy_frame)]"
    by (simp_all add: broken_env_def)
  show ?thesis
    using e(4) broken_loop_prefix broken_loop_event
      error_keeps_committed_records[OF e broken_loop_prefix broken_loop_event]
    by simp
qed

subsection \<open>C8: conservation of the counts\<close>

text \<open>
  C8.  In the interval snapshot, in the cumulative snapshot and in every row stored by
  \<open>process_video\<close> or \<open>simulate_processing\<close>, the four counts add up to
  \<open>total_students\<close>.
\<close>

theorem counts_conserved:
  "conserved (get_current_stats a)
   \<and> conserved (get_cumulative_stats a)
   \<and> ((\<forall>r\<in>set table. conserved r) \<longrightarrow>
        (\<forall>r\<in>set (snd (process_video e vid si table)). conserved r)
        \<and> (\<forall>r\<in>set (snd (simulate_processing vid g table)). conserved r))"
proof -
  obtain n1 where n1: "snd (process_video e vid si table) = table @ n1" "\<forall>r\<in>set n1. sound r"
    using process_video_appends[of e vid si table] by blast
  obtain n2 where n2: "simulate_processing vid g table = (Returns (Simulated (int (length n2))), table @ n2)"
    "\<forall>r\<in>set n2. sound r \<and> simulated_ranges r"
    using simulate_processing_appends[of vid g table] by blast
  show ?thesis
    using n1 n2 current_stats_conserved[of a] cumulative_stats_conserved[of a]
    by (auto simp: sound_def)
qed

theorem counts_conserved_witness:
  "snd (process_video one_frame_env None 1 []) = [one_frame_row]
   \<and> conserved one_frame_row
   \<and> snd (simulate_processing None zero_rng []) =
        map sim_row [0, 30, 60, 90, 120, 150, 180, 210, 240, 270]
   \<and> conserved (sim_row 0)"
  using counts_conserved[where table = "[]" and e = one_frame_env and vid = None
      and si = 1 and g = zero_rng]
  by (simp add: one_frame_run sim_run)

subsection \<open>C9: save recomputes the percentage\<close>

text \<open>
  C9.  \<open>save\<close> stores the row with \<open>engagement_percentage\<close> recomputed from
  \<open>attentive_count\<close> and \<open>total_students\<close>: the stored row does not depend on the
  percentage the caller supplied, it differs from the caller's row in that field only, it
  satisfies the percentage formula, and a table whose rows all satisfy the formula keeps
  that property.
\<close>

theorem save_recomputes_percentage:
  "save (r\<lparr>engagement_percentage := x\<rparr>) table = save r table
   \<and> (\<exists>p. save r table = table @ [r\<lparr>engagement_percentage := p\<rparr>]
          \<and> percentage_invariant (r\<lparr>engagement_percentage := p\<rparr>))
   \<and> ((\<forall>s\<in>set table. percentage_invariant s) \<longrightarrow>
        (\<forall>s\<in>set (save r table). percentage_invariant s))"
proof -
  let ?p = "if total_students r > 0
       then real_of_int (attentive_count r) / real_of_int (total_students r) * 100 else 0"
  have a: "save (r\<lparr>engagement_percentage := x\<rparr>) table = save r table"
    by (simp add: save_def)
  have b: "save r table = table @ [r\<lparr>engagement_percentage := ?p\<rparr>]"
    by (rule save_snoc)
  have c: "percentage_invariant (r\<lparr>engagement_percentage := ?p\<rparr>)"
    by (simp add: percentage_invariant_def)
  show ?thesis using a b c by auto
qed

theorem save_recomputes_percentage_witness:
  "engagement_percentage bad_row = 99
   \<and> save bad_row [] = [bad_row\<lparr>engagement_percentage := 25\<rparr>]
   \<and> percentage_invariant (bad_row\<lparr>engagement_percentage := 25\<rparr>)"
  using save_recomputes_percentage[where x = 99 and table = "[]" and r = bad_row]
  by (simp add: save_def bad_row_def)

subsection \<open>C10: simulated rows are never fully disengaged\<close>

text \<open>
  C10.  \<open>simulate_processing\<close> returns, having stored between 10 and 30 rows, each with
  \<open>total_students\<close> from 5 to 20, \<open>attentive_count\<close> from 2 to \<open>total_students\<close> and
  \<open>engagement_percentage\<close> at least 10; a run of \<open>process_video\<close> can store a row with
  \<open>attentive_count\<close> 0 and \<open>engagement_percentage\<close> 0.
\<close>

theorem simulated_rows_engaged:
  "(\<exists>new. simulate_processing vid g table = (Returns (Simulated (int (length new))), table @ new)
      \<and> 10 \<le> length new \<and> length new \<le> 30
      \<and> (\<forall>r\<in>set new. 5 \<le> total_students r \<and> total_students r \<le> 20
            \<and> 2 \<le> attentive_count r \<and> attentive_count r \<le> total_students r
            \<and> 10 \<le> engagement_percentage r))
   \<and> (\<exists>r\<in>set (snd (process_video one_frame_env None 1 [])).
         0 < total_students r \<and> attentive_count r = 0 \<and> engagement_percentage r = 0)"
proof -
  obtain new where new:
    "simulate_processing vid g table = (Returns (Simulated (int (length new))), table @ new)"
    "10 \<le> length new" "length new \<le> 30" "\<forall>r\<in>set new. sound r \<and> simulated_ranges r"
    using simulate_processing_appends[of vid g table] by blast
  have "\<forall>r\<in>set new. 5 \<le> total_students r \<and> total_students r \<le> 20
            \<and> 2 \<le> attentive_count r \<and> attentive_count r \<le> total_students r
            \<and> 10 \<le> engagement_percentage r"
    using new(4) by (simp add: simulated_ranges_def)
  with new(1-3) show ?thesis by (auto simp: one_frame_run one_frame_row_def)
qed

theorem simulated_rows_engaged_witness:
  "simulate_processing None zero_rng [] =
     (Returns (Simulated 10), map sim_row [0, 30, 60, 90, 120, 150, 180, 210, 240, 270])
   \<and> total_students (sim_row 0) = 5 \<and> attentive_count (sim_row 0) = 2
   \<and> 10 \<le> engagement_percentage (sim_row 0)"
  using simulated_rows_engaged[where vid = None and g = zero_rng and table = "[]"]
  by (simp add: sim_run sim_row_def)

end
